theory Spec2Isabelle
  imports Main "HOL-Library.Multiset"
begin

section \<open>Data model (error.go, unwrap.go)\<close>

text \<open>
  \<^verbatim>\<open>type optionComment struct { comment string; index int }\<close>.
  Go strings are byte sequences and \<^verbatim>\<open>len\<close> counts bytes, as \<open>length\<close> does on a
  \<open>string\<close>. The \<^verbatim>\<open>int\<close> fields are never combined arithmetically in a way that can
  leave the machine range (sums of string lengths, comparisons), so they are \<open>int\<close>.
\<close>

record optionComment =
  comment :: string
  index :: int

text \<open>
  A value of the Go interface type \<^verbatim>\<open>error\<close>, by its dynamic type, in the order in which
  the type switches of unwrap.go distinguish them:
  \<^item> \<open>NilInterface\<close>: the nil interface value;
  \<^item> \<open>NilErrorPtr\<close>: a nil \<^verbatim>\<open>*Error\<close> stored in the interface (not equal to nil);
  \<^item> \<open>ErrorPtr e\<close>: a non-nil \<^verbatim>\<open>*Error\<close> whose pointee is \<open>e\<close>;
  \<^item> \<open>Foreign\<close>: any other dynamic type, described by what its methods return: the text
    of \<^verbatim>\<open>Error()\<close>, the result of \<^verbatim>\<open>ExitCode()\<close> and of \<^verbatim>\<open>Temporary()\<close> when the type
    has the method (\<open>None\<close> when it has not), and the result of \<^verbatim>\<open>Unwrap()\<close> likewise.
    An \<^verbatim>\<open>Error\<close> struct stored by value, not by pointer, is such a type: the switches
    reach it through its methods, in the \<^verbatim>\<open>exitCoder\<close> and \<^verbatim>\<open>temporaryer\<close> cases.
  The struct \<^verbatim>\<open>Error\<close> holds an \<^verbatim>\<open>error\<close>, so the two types are defined together; the
  fields keep the order and the names of the struct.
\<close>

datatype error =
    NilInterface
  | NilErrorPtr
  | ErrorPtr Error
  | Foreign (errorText: string) (exitCoder: "int option") (temporaryer: "bool option")
      (unwrapper: "error option")
and Error = Error
    (optionComments: "optionComment list")
    (options: "string list")
    (beforeMessage: "string list")
    (betweenMessageAndOptions: "string list")
    (afterOptions: "string list")
    (err: error)
    (msg: string)
    (exitCode: int)
    (isExitCodeSet: bool)
    (temporary: bool)
    (isTemporarySet: bool)

text \<open>The zero value of the struct, \<^verbatim>\<open>Error{}\<close>.\<close>

definition zeroError :: Error where
  "zeroError = Error [] [] [] [] [] NilInterface [] 0 False False False"

text \<open>
  A \<^verbatim>\<open>*Error\<close> is \<open>None\<close> (nil) or \<open>Some\<close> of its pointee. Storing it in an \<^verbatim>\<open>error\<close>
  interface keeps the dynamic type: a nil pointer becomes \<open>NilErrorPtr\<close>, never
  \<open>NilInterface\<close>.
\<close>

fun toError :: "Error option \<Rightarrow> error" where
  "toError None = NilErrorPtr"
| "toError (Some e) = ErrorPtr e"

section \<open>Attribute resolution (unwrap.go)\<close>

text \<open>
  One pass through the body of the \<^verbatim>\<open>for\<close> loop of \<^verbatim>\<open>unwrapExitCode\<close>: the type
  switch either returns (\<open>Return\<close>) or assigns \<^verbatim>\<open>err = tv.Unwrap()\<close> and goes round
  again (\<open>Continue\<close>). The cases are tried in the order of the source: nil, \<^verbatim>\<open>*Error\<close>,
  \<^verbatim>\<open>exitCoder\<close>, \<^verbatim>\<open>unwrapper\<close>, default.
\<close>

datatype 'r step = Return 'r | Continue error

fun exitCodeStep :: "error \<Rightarrow> (int \<times> bool) step" where
  "exitCodeStep NilInterface = Return (0, False)"
| "exitCodeStep NilErrorPtr = Return (0, False)"
| "exitCodeStep (ErrorPtr tv) = Return (exitCode tv, isExitCodeSet tv)"
| "exitCodeStep (Foreign t (Some c) tm u) = Return (c, True)"
| "exitCodeStep (Foreign t None tm (Some e)) = Continue e"
| "exitCodeStep (Foreign t None tm None) = Return (0, False)"

fun temporaryStep :: "error \<Rightarrow> (bool \<times> bool) step" where
  "temporaryStep NilInterface = Return (False, False)"
| "temporaryStep NilErrorPtr = Return (False, False)"
| "temporaryStep (ErrorPtr tv) = Return (temporary tv, isTemporarySet tv)"
| "temporaryStep (Foreign t c (Some b) u) = Return (b, True)"
| "temporaryStep (Foreign t c None (Some e)) = Continue e"
| "temporaryStep (Foreign t c None None) = Return (False, False)"

text \<open>
  The loops themselves. \<open>None\<close> stands for a loop that never returns, so that the
  termination of the walk is a theorem and not an assumption of the model.
\<close>

partial_function (option) unwrapExitCode :: "error \<Rightarrow> (int \<times> bool) option" where
  "unwrapExitCode e =
     (case exitCodeStep e of Return r \<Rightarrow> Some r | Continue e' \<Rightarrow> unwrapExitCode e')"

partial_function (option) unwrapTemporary :: "error \<Rightarrow> (bool \<times> bool) option" where
  "unwrapTemporary e =
     (case temporaryStep e of Return r \<Rightarrow> Some r | Continue e' \<Rightarrow> unwrapTemporary e')"

text \<open>\<^verbatim>\<open>exitCode, _ := unwrapExitCode(err); return exitCode\<close>, and the same for Temporary.\<close>

definition ExitCode :: "error \<Rightarrow> int option" where
  "ExitCode e = map_option fst (unwrapExitCode e)"

definition Temporary :: "error \<Rightarrow> bool option" where
  "Temporary e = map_option fst (unwrapTemporary e)"

text \<open>The methods \<^verbatim>\<open>func (e Error) ExitCode() int\<close>, \<^verbatim>\<open>Temporary() bool\<close>, \<^verbatim>\<open>Unwrap() error\<close>.\<close>

definition Error_ExitCode :: "Error \<Rightarrow> int option" where
  "Error_ExitCode e = (if isExitCodeSet e then Some (exitCode e) else ExitCode (err e))"

definition Error_Temporary :: "Error \<Rightarrow> bool option" where
  "Error_Temporary e = (if isTemporarySet e then Some (temporary e) else Temporary (err e))"

definition Error_Unwrap :: "Error \<Rightarrow> error" where
  "Error_Unwrap e = err e"


section \<open>Constructors and setters (error.go)\<close>

text \<open>
  \<^verbatim>\<open>MaybeWrap\<close> compares its argument with the nil interface only: a nil \<^verbatim>\<open>*Error\<close>
  stored in an \<^verbatim>\<open>error\<close> is not nil and gets wrapped.
\<close>

definition MaybeWrap :: "error \<Rightarrow> Error option" where
  "MaybeWrap e =
     (if e = NilInterface then None
      else Some (Error [] [] [] [] [] e [] 0 False False False))"

text \<open>
  \<^verbatim>\<open>New(f, a...)\<close> stores \<^verbatim>\<open>fmt.Sprintf(f, a...)\<close>; formatting belongs to the standard
  library, so \<open>New\<close> and \<open>WithMessage\<close> take the formatted text.
\<close>

definition New :: "string \<Rightarrow> Error option" where
  "New s = Some (Error [] [] [] [] [] NilInterface s 0 False False False)"

text \<open>
  The setters have pointer receivers: each returns nil on a nil receiver, and otherwise
  updates the pointee and returns the same pointer. The value returned here is the
  pointee after the call.
\<close>

fun WithExitCode :: "Error option \<Rightarrow> int \<Rightarrow> Error option" where
  "WithExitCode None code = None"
| "WithExitCode (Some (Error ocs opts bm bmo ao er m ec ecs tmp tmps)) code =
     Some (Error ocs opts bm bmo ao er m code True tmp tmps)"

fun WithLineAfterOptions :: "Error option \<Rightarrow> string \<Rightarrow> Error option" where
  "WithLineAfterOptions None line = None"
| "WithLineAfterOptions (Some (Error ocs opts bm bmo ao er m ec ecs tmp tmps)) line =
     Some (Error ocs opts bm bmo (ao @ [line]) er m ec ecs tmp tmps)"

fun WithLinesAfterOptions :: "Error option \<Rightarrow> string list \<Rightarrow> Error option" where
  "WithLinesAfterOptions None lines = None"
| "WithLinesAfterOptions (Some (Error ocs opts bm bmo ao er m ec ecs tmp tmps)) lines =
     Some (Error ocs opts bm bmo (ao @ lines) er m ec ecs tmp tmps)"

fun WithLineBeforeMessage :: "Error option \<Rightarrow> string \<Rightarrow> Error option" where
  "WithLineBeforeMessage None line = None"
| "WithLineBeforeMessage (Some (Error ocs opts bm bmo ao er m ec ecs tmp tmps)) line =
     Some (Error ocs opts (bm @ [line]) bmo ao er m ec ecs tmp tmps)"

fun WithLinesBeforeMessage :: "Error option \<Rightarrow> string list \<Rightarrow> Error option" where
  "WithLinesBeforeMessage None lines = None"
| "WithLinesBeforeMessage (Some (Error ocs opts bm bmo ao er m ec ecs tmp tmps)) lines =
     Some (Error ocs opts (bm @ lines) bmo ao er m ec ecs tmp tmps)"

fun WithLineBetweenMessageAndOption :: "Error option \<Rightarrow> string \<Rightarrow> Error option" where
  "WithLineBetweenMessageAndOption None line = None"
| "WithLineBetweenMessageAndOption (Some (Error ocs opts bm bmo ao er m ec ecs tmp tmps)) line =
     Some (Error ocs opts bm (bmo @ [line]) ao er m ec ecs tmp tmps)"

fun WithLinesBetweenMessageAndOption :: "Error option \<Rightarrow> string list \<Rightarrow> Error option" where
  "WithLinesBetweenMessageAndOption None lines = None"
| "WithLinesBetweenMessageAndOption (Some (Error ocs opts bm bmo ao er m ec ecs tmp tmps)) lines =
     Some (Error ocs opts bm (bmo @ lines) ao er m ec ecs tmp tmps)"

fun WithMessage :: "Error option \<Rightarrow> string \<Rightarrow> Error option" where
  "WithMessage None s = None"
| "WithMessage (Some (Error ocs opts bm bmo ao er m ec ecs tmp tmps)) s =
     Some (Error ocs opts bm bmo ao er s ec ecs tmp tmps)"

fun WithOptions :: "Error option \<Rightarrow> string list \<Rightarrow> Error option" where
  "WithOptions None os = None"
| "WithOptions (Some (Error ocs opts bm bmo ao er m ec ecs tmp tmps)) os =
     Some (Error ocs os bm bmo ao er m ec ecs tmp tmps)"

fun WithTemporary :: "Error option \<Rightarrow> bool \<Rightarrow> Error option" where
  "WithTemporary None b = None"
| "WithTemporary (Some (Error ocs opts bm bmo ao er m ec ecs tmp tmps)) b =
     Some (Error ocs opts bm bmo ao er m ec ecs b True)"

fun WithWrap :: "Error option \<Rightarrow> error \<Rightarrow> Error option" where
  "WithWrap None w = None"
| "WithWrap (Some (Error ocs opts bm bmo ao er m ec ecs tmp tmps)) w =
     Some (Error ocs opts bm bmo ao w m ec ecs tmp tmps)"

fun WithOptionComment :: "Error option \<Rightarrow> int \<Rightarrow> string \<Rightarrow> Error option" where
  "WithOptionComment None i c = None"
| "WithOptionComment (Some (Error ocs opts bm bmo ao er m ec ecs tmp tmps)) i c =
     Some (Error (ocs @ [\<lparr>comment = c, index = i\<rparr>]) opts bm bmo ao er m ec ecs tmp tmps)"


section \<open>Standard-library functions the renderer calls\<close>

text \<open>
  Run-time panics are values. \<^verbatim>\<open>strings.Repeat\<close> panics on a negative count (its
  other panic, on a result longer than an \<^verbatim>\<open>int\<close> can count, needs more text than
  memory holds); calling a method with a value receiver through a nil pointer, or any
  method through a nil interface, panics with a nil dereference.
\<close>

datatype panic = NilDereference | NegativeRepeatCount

definition stringsRepeat :: "string \<Rightarrow> int \<Rightarrow> panic + string" where
  "stringsRepeat s n =
     (if n < 0 then Inl NegativeRepeatCount
      else Inr (concat (replicate (nat n) s)))"

fun stringsJoin :: "string list \<Rightarrow> string \<Rightarrow> string" where
  "stringsJoin [] sep = []"
| "stringsJoin [x] sep = x"
| "stringsJoin (x # y # ys) sep = x @ sep @ stringsJoin (y # ys) sep"

text \<open>
  \<^verbatim>\<open>func (x optionCommentSlice) Less(i, j int) bool { return x[i].index > x[j].index }\<close>,
  on the two elements it reads.
\<close>

definition Less :: "optionComment \<Rightarrow> optionComment \<Rightarrow> bool" where
  "Less a b = (index a > index b)"

text \<open>
  \<^verbatim>\<open>sort.Sort\<close> belongs to the Go standard library and is a parameter \<open>srt\<close> of the
  renderer: the function from the contents of the slice before the call to its contents
  after it. Its documented contract: the data is rearranged (a permutation) into
  ascending order as determined by \<^verbatim>\<open>Less\<close>, so no element is \<^verbatim>\<open>Less\<close> than one before
  it; the sort is not guaranteed to be stable.
\<close>

type_synonym sortfn = "optionComment list \<Rightarrow> optionComment list"

definition sortSort_spec :: "sortfn \<Rightarrow> bool" where
  "sortSort_spec srt =
     (\<forall>xs. mset (srt xs) = mset xs \<and> sorted_wrt (\<lambda>a b. \<not> Less b a) (srt xs))"

text \<open>
  Two sorting functions that meet the contract (proved below), both from package
  \<^verbatim>\<open>sort\<close> of the standard library. \<open>insertionSort\<close> is its
  \<^verbatim>\<open>for i := a + 1; i < b; i++ { for j := i; j > a && data.Less(j, j-1); j-- { data.Swap(j, j-1) } }\<close>,
  which \<^verbatim>\<open>sort.Sort\<close> of Go 1.19 and later runs on a slice of at most 12 elements:
  element \<^verbatim>\<open>i\<close> is swapped leftwards while it is \<^verbatim>\<open>Less\<close> than its left neighbour.
  \<open>insertLeft x ps\<close> does this for one element, \<open>ps\<close> being the part already sorted,
  nearest neighbour first.
\<close>

fun insertLeft :: "optionComment \<Rightarrow> optionComment list \<Rightarrow> optionComment list" where
  "insertLeft x [] = [x]"
| "insertLeft x (p # ps) = (if Less x p then p # insertLeft x ps else x # p # ps)"

definition insertionSort :: sortfn where
  "insertionSort xs = rev (foldl (\<lambda>ps x. insertLeft x ps) [] xs)"

text \<open>
  \<open>shellInsertionSort\<close> is what \<^verbatim>\<open>sort.Sort\<close> of Go 1.18 (the first release that compiles
  this package, which uses \<^verbatim>\<open>any\<close>) runs on a slice of at most 12 elements: one pass
  \<^verbatim>\<open>for i := a + 6; i < b; i++ { if data.Less(i, i-6) { data.Swap(i, i-6) } }\<close>
  and then \<^verbatim>\<open>insertionSort\<close>.
\<close>

definition gapSwap :: "optionComment list \<Rightarrow> nat \<Rightarrow> optionComment list" where
  "gapSwap xs i =
     (if Less (xs ! i) (xs ! (i - 6)) then xs[i := xs ! (i - 6), i - 6 := xs ! i] else xs)"

definition shellInsertionSort :: sortfn where
  "shellInsertionSort xs = insertionSort (foldl gapSwap xs [6 ..< length xs])"

section \<open>Annotated option lines (error.go, optionLines)\<close>

text \<open>
  The first loop: \<^verbatim>\<open>length += len(opt) + 1; indices = append(indices, length)\<close> for each
  option, started from \<^verbatim>\<open>indices = []int{0}\<close> and \<^verbatim>\<open>length = 0\<close>.
\<close>

fun optionIndices :: "string list \<Rightarrow> int list \<Rightarrow> int \<Rightarrow> int list \<times> int" where
  "optionIndices [] indices len = (indices, len)"
| "optionIndices (opt # opts) indices len =
     optionIndices opts (indices @ [len + (int (length opt) + 1)])
       (len + (int (length opt) + 1))"

text \<open>
  The body of the second loop, for one annotation: the line it appends, or the panic of
  \<^verbatim>\<open>strings.Repeat\<close>. The guard keeps every read of \<^verbatim>\<open>indices\<close> in range
  (\<open>commentLine_reads_in_range\<close> below).
\<close>

definition commentLine :: "int \<Rightarrow> int list \<Rightarrow> int \<Rightarrow> optionComment \<Rightarrow> panic + string" where
  "commentLine optCount indices len oc =
     (if index oc < 0 \<or> index oc \<ge> optCount then
        (case stringsRepeat '' '' len of
           Inl p \<Rightarrow> Inl p
         | Inr prefix \<Rightarrow> Inr (prefix @ ''^ '' @ comment oc))
      else
        (case stringsRepeat '' '' (indices ! nat (index oc)) of
           Inl p \<Rightarrow> Inl p
         | Inr spaces \<Rightarrow>
             (case (if index oc = optCount - 1
                    then stringsRepeat ''~'' ((len - indices ! nat (index oc)) - 2)
                    else stringsRepeat ''~''
                           (indices ! nat (index oc + 1) - indices ! nat (index oc) - 2)) of
                Inl p \<Rightarrow> Inl p
              | Inr tildes \<Rightarrow> Inr ((spaces @ ''^'') @ tildes @ '' '' @ comment oc))))"

fun commentLines ::
  "int \<Rightarrow> int list \<Rightarrow> int \<Rightarrow> optionComment list \<Rightarrow> string list \<Rightarrow> panic + string list" where
  "commentLines optCount indices len [] lines = Inr lines"
| "commentLines optCount indices len (oc # ocs) lines =
     (case commentLine optCount indices len oc of
        Inl p \<Rightarrow> Inl p
      | Inr l \<Rightarrow> commentLines optCount indices len ocs (lines @ [l]))"

text \<open>
  \<^verbatim>\<open>optionLines(opts, ocs...)\<close>. The variadic argument is passed as the caller's slice,
  and \<^verbatim>\<open>sort.Sort\<close> rearranges it in place: the first component of the result is the
  contents of that slice when the function returns or panics, the second the returned
  lines (\<^verbatim>\<open>nil\<close> is the empty list) or the panic.
\<close>

definition optionLines ::
  "sortfn \<Rightarrow> string list \<Rightarrow> optionComment list \<Rightarrow> optionComment list \<times> (panic + string list)" where
  "optionLines srt opts ocs =
     (let optCount = int (length opts) in
      if optCount = 0 then (ocs, Inr [])
      else
        let lines = [stringsJoin opts '' ''] in
        if length ocs = 0 then (ocs, Inr lines)
        else
          (case optionIndices opts [0] 0 of
             (indices, len) \<Rightarrow>
               let sorted = srt ocs
               in (sorted, commentLines optCount indices len sorted lines)))"

section \<open>Line assembly (error.go, ErrorLines and Error)\<close>

text \<open>
  \<^verbatim>\<open>Error\<close> and \<^verbatim>\<open>ErrorLines\<close> have value receivers, but the copy of the struct shares
  the backing array of \<^verbatim>\<open>optionComments\<close> with the original, and \<^verbatim>\<open>err\<close> holds a pointer:
  what \<^verbatim>\<open>optionLines\<close> and the wrapped error's \<^verbatim>\<open>Error()\<close> rearrange is visible to the
  caller afterwards. Each function returns the value as it is after the call, and the
  result or the panic. \<open>err_Error\<close> is the call \<^verbatim>\<open>e.err.Error()\<close>, dispatched on the
  dynamic type.

  The \<^verbatim>\<open>Error()\<close> method of a foreign type is code outside the package. It returns the
  text the value is described by, and it may change what the value holds: the
  \<^verbatim>\<open>dummyUnwrapper\<close> of the tests formats the error it wraps with \<^verbatim>\<open>%v\<close>, which calls that
  error's \<^verbatim>\<open>Error()\<close> and so sorts the annotations of a wrapped \<^verbatim>\<open>*Error\<close> in place. Like
  \<^verbatim>\<open>sort.Sort\<close>, this is a parameter: \<open>fe v\<close> is the foreign value \<open>v\<close> as its own
  \<^verbatim>\<open>Error()\<close> method leaves it.
\<close>

type_synonym foreignfn = "error \<Rightarrow> error"

fun err_Error :: "sortfn \<Rightarrow> foreignfn \<Rightarrow> error \<Rightarrow> error \<times> (panic + string)"
and Error_Error :: "sortfn \<Rightarrow> foreignfn \<Rightarrow> Error \<Rightarrow> Error \<times> (panic + string)"
and ErrorLines :: "sortfn \<Rightarrow> foreignfn \<Rightarrow> Error \<Rightarrow> Error \<times> (panic + string list)" where
  "err_Error srt fe NilInterface = (NilInterface, Inl NilDereference)"
| "err_Error srt fe NilErrorPtr = (NilErrorPtr, Inl NilDereference)"
| "err_Error srt fe (ErrorPtr e) =
     (case Error_Error srt fe e of (e', r) \<Rightarrow> (ErrorPtr e', r))"
| "err_Error srt fe (Foreign t c tm u) = (fe (Foreign t c tm u), Inr t)"
| "Error_Error srt fe e =
     (case ErrorLines srt fe e of
        (e', Inl p) \<Rightarrow> (e', Inl p)
      | (e', Inr lines) \<Rightarrow> (e', Inr (stringsJoin lines [CHR 0x0A])))"
| "ErrorLines srt fe (Error ocs opts bm bmo ao er m ec ecs tmp tmps) =
     (let lines = [] @ bm in
      case
        (if m \<noteq> [] then
           (if er \<noteq> NilInterface then
              (case err_Error srt fe er of
                 (er', Inl p) \<Rightarrow> (er', Inl p)
               | (er', Inr t) \<Rightarrow> (er', Inr (lines @ [m @ '': '' @ t])))
            else (er, Inr (lines @ [m])))
         else
           (if er \<noteq> NilInterface then
              (case err_Error srt fe er of
                 (er', Inl p) \<Rightarrow> (er', Inl p)
               | (er', Inr t) \<Rightarrow> (er', Inr (lines @ [t])))
            else (er, Inr (lines @ [''error without message or wrapped error'']))))
      of
        (er', Inl p) \<Rightarrow> (Error ocs opts bm bmo ao er' m ec ecs tmp tmps, Inl p)
      | (er', Inr lines) \<Rightarrow>
          (case optionLines srt opts ocs of
             (ocs', Inl p) \<Rightarrow> (Error ocs' opts bm bmo ao er' m ec ecs tmp tmps, Inl p)
           | (ocs', Inr ol) \<Rightarrow>
               (Error ocs' opts bm bmo ao er' m ec ecs tmp tmps,
                Inr (((lines @ bmo) @ ol) @ ao))))"


section \<open>Closed forms for the statements below\<close>

text \<open>
  The column at which option \<open>k\<close> starts in the joined line: every option before it takes
  its length and one space. For \<open>k = length opts\<close> this is the final value of the variable
  \<^verbatim>\<open>length\<close> of \<^verbatim>\<open>optionLines\<close>, one more than the length of the joined line.
\<close>

definition startColumn :: "string list \<Rightarrow> nat \<Rightarrow> int" where
  "startColumn opts k = sum_list (map (\<lambda>opt. int (length opt) + 1) (take k opts))"

text \<open>
  The line drawn for an annotation. Out of range: spaces up to the column where a further
  option would start, a caret, a space, the comment. In range: spaces up to the start of
  the option, a caret, one tilde for each further character of the option, a space, the
  comment.
\<close>

definition pastEndLine :: "string list \<Rightarrow> optionComment \<Rightarrow> string" where
  "pastEndLine opts oc =
     replicate (length (stringsJoin opts '' '') + 1) CHR '' '' @ ''^ '' @ comment oc"

definition underlineLine :: "string list \<Rightarrow> optionComment \<Rightarrow> string" where
  "underlineLine opts oc =
     replicate (nat (startColumn opts (nat (index oc)))) CHR '' '' @ ''^''
       @ replicate (length (opts ! nat (index oc)) - 1) CHR ''~'' @ '' '' @ comment oc"

definition annotationLine :: "string list \<Rightarrow> optionComment \<Rightarrow> string" where
  "annotationLine opts oc =
     (if index oc < 0 \<or> int (length opts) \<le> index oc then pastEndLine opts oc
      else underlineLine opts oc)"

text \<open>
  The message line in the words of the specification: message and wrapped error text
  joined by a colon and a space when both are set, either of them alone when only one is
  set, the placeholder when neither is. \<open>w\<close> is the text of the wrapped error, if one is
  set.
\<close>

definition messageLine :: "string \<Rightarrow> string option \<Rightarrow> string" where
  "messageLine m w =
     (case w of
        Some t \<Rightarrow> (if m \<noteq> [] then m @ '': '' @ t else t)
      | None \<Rightarrow> (if m \<noteq> [] then m else ''error without message or wrapped error''))"

section \<open>The resolution loops\<close>

lemma unwrapExitCode_Return: "exitCodeStep e = Return r \<Longrightarrow> unwrapExitCode e = Some r"
  by (subst unwrapExitCode.simps) simp

lemma unwrapExitCode_Continue:
  "exitCodeStep e = Continue e' \<Longrightarrow> unwrapExitCode e = unwrapExitCode e'"
  by (subst unwrapExitCode.simps) simp

lemma unwrapTemporary_Return: "temporaryStep e = Return r \<Longrightarrow> unwrapTemporary e = Some r"
  by (subst unwrapTemporary.simps) simp

lemma unwrapTemporary_Continue:
  "temporaryStep e = Continue e' \<Longrightarrow> unwrapTemporary e = unwrapTemporary e'"
  by (subst unwrapTemporary.simps) simp

text \<open>The loop goes round again only from an error without the attribute method, and then
  with the result of its \<^verbatim>\<open>Unwrap()\<close>.\<close>

lemma exitCodeStep_Continue_iff:
  "exitCodeStep e = Continue e' \<longleftrightarrow> (\<exists>t tm. e = Foreign t None tm (Some e'))"
  by (cases e rule: exitCodeStep.cases) auto

lemma temporaryStep_Continue_iff:
  "temporaryStep e = Continue e' \<longleftrightarrow> (\<exists>t c. e = Foreign t c None (Some e'))"
  by (cases e rule: temporaryStep.cases) auto

lemma unwrapExitCode_total: "\<exists>r. unwrapExitCode e = Some r"
proof (induction e rule: measure_induct_rule [of size])
  case (less e)
  show ?case
  proof (cases "exitCodeStep e")
    case (Return r)
    then show ?thesis by (auto simp: unwrapExitCode_Return)
  next
    case (Continue e')
    then have "size e' < size e" by (auto simp: exitCodeStep_Continue_iff)
    with less Continue show ?thesis by (simp add: unwrapExitCode_Continue)
  qed
qed

lemma unwrapTemporary_total: "\<exists>r. unwrapTemporary e = Some r"
proof (induction e rule: measure_induct_rule [of size])
  case (less e)
  show ?case
  proof (cases "temporaryStep e")
    case (Return r)
    then show ?thesis by (auto simp: unwrapTemporary_Return)
  next
    case (Continue e')
    then have "size e' < size e" by (auto simp: temporaryStep_Continue_iff)
    with less Continue show ?thesis by (simp add: unwrapTemporary_Continue)
  qed
qed

lemma ExitCode_ErrorPtr: "ExitCode (ErrorPtr e) = Some (exitCode e)"
  by (simp add: ExitCode_def unwrapExitCode_Return)

lemma Temporary_ErrorPtr: "Temporary (ErrorPtr e) = Some (temporary e)"
  by (simp add: Temporary_def unwrapTemporary_Return)

lemma ExitCode_Foreign_exitCoder: "ExitCode (Foreign t (Some c) tm u) = Some c"
  by (simp add: ExitCode_def unwrapExitCode_Return)

lemma Temporary_Foreign_temporaryer: "Temporary (Foreign t c (Some b) u) = Some b"
  by (simp add: Temporary_def unwrapTemporary_Return)

lemma ExitCode_nil: "ExitCode NilInterface = Some 0" "ExitCode NilErrorPtr = Some 0"
  by (simp_all add: ExitCode_def unwrapExitCode_Return)

lemma Temporary_nil: "Temporary NilInterface = Some False" "Temporary NilErrorPtr = Some False"
  by (simp_all add: Temporary_def unwrapTemporary_Return)

text \<open>
  Claim C1. The claim: for a \<^verbatim>\<open>*Error\<close> whose override flag is unset, the free-standing
  \<^verbatim>\<open>ExitCode(err)\<close> and \<^verbatim>\<open>Temporary(err)\<close> return the attribute resolved on its wrapped
  error. The code does not do so: in the \<^verbatim>\<open>case *Error\<close> of the type switch it returns the
  struct's own field whatever the flag, and never looks at the wrapped error. The methods
  \<^verbatim>\<open>Error.ExitCode()\<close> and \<^verbatim>\<open>Error.Temporary()\<close> do resolve through the wrapped error. With
  \<^verbatim>\<open>err := goerr.MaybeWrap(dummyExitCoder{42})\<close>, \<^verbatim>\<open>goerr.ExitCode(err)\<close> is 0 and
  \<^verbatim>\<open>err.ExitCode()\<close> is 42; likewise \<^verbatim>\<open>Temporary\<close> gives false and true.
\<close>

theorem free_standing_entry_points_ignore_wrapped:
  "ExitCode (ErrorPtr e) = Some (exitCode e)
   \<and> Temporary (ErrorPtr e) = Some (temporary e)
   \<and> MaybeWrap (Foreign ''returns exit code: 42'' (Some 42) None None) =
       Some (Error [] [] [] [] [] (Foreign ''returns exit code: 42'' (Some 42) None None)
               [] 0 False False False)
   \<and> ExitCode (toError (MaybeWrap (Foreign ''returns exit code: 42'' (Some 42) None None)))
       = Some 0
   \<and> Error_ExitCode (Error [] [] [] [] [] (Foreign ''returns exit code: 42'' (Some 42) None None)
               [] 0 False False False) = Some 42
   \<and> Temporary (toError (MaybeWrap (Foreign ''returns temporary: true'' None (Some True) None)))
       = Some False
   \<and> Error_Temporary (Error [] [] [] [] [] (Foreign ''returns temporary: true'' None (Some True) None)
               [] 0 False False False) = Some True"
  by (simp add: ExitCode_ErrorPtr Temporary_ErrorPtr MaybeWrap_def Error_ExitCode_def
      Error_Temporary_def ExitCode_Foreign_exitCoder Temporary_Foreign_temporaryer)

text \<open>
  Claim C2. When the exit-code (temporary) override flag of an \<^verbatim>\<open>Error\<close> is set, the
  free-standing entry point on a pointer to it and the method both return the value set
  explicitly, whatever the error wraps.
\<close>

theorem explicit_override_wins:
  "(isExitCodeSet e \<longrightarrow>
      ExitCode (ErrorPtr e) = Some (exitCode e) \<and> Error_ExitCode e = Some (exitCode e))
   \<and> (isTemporarySet e \<longrightarrow>
      Temporary (ErrorPtr e) = Some (temporary e) \<and> Error_Temporary e = Some (temporary e))"
  by (simp add: ExitCode_ErrorPtr Temporary_ErrorPtr Error_ExitCode_def Error_Temporary_def)

theorem explicit_override_wins_witness:
  "isExitCodeSet
     (Error [] [] [] [] []
        (ErrorPtr (Error [] [] [] [] [] (Foreign ''inner'' (Some 9) (Some False) None)
           ''middle'' 7 True False True))
        ''outer'' 13 True True True)
   \<and> ExitCode (ErrorPtr
     (Error [] [] [] [] []
        (ErrorPtr (Error [] [] [] [] [] (Foreign ''inner'' (Some 9) (Some False) None)
           ''middle'' 7 True False True))
        ''outer'' 13 True True True)) = Some 13
   \<and> Error_ExitCode
     (Error [] [] [] [] []
        (ErrorPtr (Error [] [] [] [] [] (Foreign ''inner'' (Some 9) (Some False) None)
           ''middle'' 7 True False True))
        ''outer'' 13 True True True) = Some 13
   \<and> Temporary (ErrorPtr
     (Error [] [] [] [] []
        (ErrorPtr (Error [] [] [] [] [] (Foreign ''inner'' (Some 9) (Some False) None)
           ''middle'' 7 True False True))
        ''outer'' 13 True True True)) = Some True
   \<and> Error_Temporary
     (Error [] [] [] [] []
        (ErrorPtr (Error [] [] [] [] [] (Foreign ''inner'' (Some 9) (Some False) None)
           ''middle'' 7 True False True))
        ''outer'' 13 True True True) = Some True"
  using explicit_override_wins [of
     "Error [] [] [] [] []
        (ErrorPtr (Error [] [] [] [] [] (Foreign ''inner'' (Some 9) (Some False) None)
           ''middle'' 7 True False True))
        ''outer'' 13 True True True"]
  by simp

text \<open>
  Claim C3. An error of a foreign type that has the \<^verbatim>\<open>ExitCode()\<close> (the \<^verbatim>\<open>Temporary()\<close>)
  method gives that method's result, whether or not it also has \<^verbatim>\<open>Unwrap()\<close> and whatever
  \<^verbatim>\<open>Unwrap()\<close> would return: the result does not depend on \<open>u\<close>.
\<close>

theorem foreign_capability_is_terminal:
  "ExitCode (Foreign t (Some c) tm u) = Some c
   \<and> Temporary (Foreign t c' (Some b) u) = Some b
   \<and> exitCodeStep (Foreign t (Some c) tm (Some e')) = Return (c, True)
   \<and> temporaryStep (Foreign t c' (Some b) (Some e')) = Return (b, True)"
  by (simp add: ExitCode_Foreign_exitCoder Temporary_Foreign_temporaryer)

text \<open>
  Claim C8. \<^verbatim>\<open>MaybeWrap(nil)\<close> is a nil \<^verbatim>\<open>*Error\<close>; \<^verbatim>\<open>ExitCode\<close> and \<^verbatim>\<open>Temporary\<close> of it, and
  of the nil interface, are 0 and false; every setter called on it returns nil again.
\<close>

theorem MaybeWrap_nil_is_absent:
  "MaybeWrap NilInterface = None
   \<and> ExitCode (toError (MaybeWrap NilInterface)) = Some 0
   \<and> Temporary (toError (MaybeWrap NilInterface)) = Some False
   \<and> ExitCode NilInterface = Some 0
   \<and> Temporary NilInterface = Some False
   \<and> WithExitCode (MaybeWrap NilInterface) code = None
   \<and> WithTemporary (MaybeWrap NilInterface) b = None
   \<and> WithLineAfterOptions (MaybeWrap NilInterface) line = None
   \<and> WithLinesAfterOptions (MaybeWrap NilInterface) lines = None
   \<and> WithLineBeforeMessage (MaybeWrap NilInterface) line = None
   \<and> WithLinesBeforeMessage (MaybeWrap NilInterface) lines = None
   \<and> WithLineBetweenMessageAndOption (MaybeWrap NilInterface) line = None
   \<and> WithLinesBetweenMessageAndOption (MaybeWrap NilInterface) lines = None
   \<and> WithMessage (MaybeWrap NilInterface) s = None
   \<and> WithOptionComment (MaybeWrap NilInterface) i c = None
   \<and> WithOptions (MaybeWrap NilInterface) os = None
   \<and> WithWrap (MaybeWrap NilInterface) w = None"
  by (simp add: MaybeWrap_def ExitCode_nil Temporary_nil)

text \<open>
  Claim C9. On every chain (the values of type \<open>error\<close> are the finite, acyclic chains)
  both loops return. Whenever a pass through the loop body does not return, it continues
  with the \<^verbatim>\<open>Unwrap()\<close> result of the current error, which is a strictly smaller value: no
  error is visited twice.
\<close>

theorem resolution_walk_terminates:
  "(\<exists>r. unwrapExitCode e = Some r)
   \<and> (\<exists>r. unwrapTemporary e = Some r)
   \<and> (\<exists>c. ExitCode e = Some c)
   \<and> (\<exists>b. Temporary e = Some b)
   \<and> (\<forall>e'. exitCodeStep e = Continue e' \<longrightarrow> unwrapper e = Some e' \<and> size e' < size e)
   \<and> (\<forall>e'. temporaryStep e = Continue e' \<longrightarrow> unwrapper e = Some e' \<and> size e' < size e)"
proof -
  obtain r where r: "unwrapExitCode e = Some r" using unwrapExitCode_total by blast
  obtain q where q: "unwrapTemporary e = Some q" using unwrapTemporary_total by blast
  have "\<forall>e'. exitCodeStep e = Continue e' \<longrightarrow> unwrapper e = Some e' \<and> size e' < size e"
    by (auto simp: exitCodeStep_Continue_iff)
  moreover
  have "\<forall>e'. temporaryStep e = Continue e' \<longrightarrow> unwrapper e = Some e' \<and> size e' < size e"
    by (auto simp: temporaryStep_Continue_iff)
  ultimately show ?thesis using r q by (simp add: ExitCode_def Temporary_def)
qed

theorem resolution_walk_terminates_witness:
  "exitCodeStep (Foreign ''outer'' None None (Some (Foreign ''inner'' (Some 42) None None)))
     = Continue (Foreign ''inner'' (Some 42) None None)
   \<and> size (Foreign ''inner'' (Some 42) None None)
       < size (Foreign ''outer'' None None (Some (Foreign ''inner'' (Some 42) None None)))
   \<and> (\<exists>c. ExitCode (Foreign ''outer'' None None (Some (Foreign ''inner'' (Some 42) None None)))
          = Some c)"
  using resolution_walk_terminates
    [of "Foreign ''outer'' None None (Some (Foreign ''inner'' (Some 42) None None))"]
  by simp


section \<open>Columns and annotation lines\<close>

lemma startColumn_0: "startColumn opts 0 = 0"
  by (simp add: startColumn_def)

lemma startColumn_Cons_Suc:
  "startColumn (opt # opts) (Suc k) = int (length opt) + 1 + startColumn opts k"
  by (simp add: startColumn_def)

lemma startColumn_Suc:
  "k < length opts \<Longrightarrow> startColumn opts (Suc k) = startColumn opts k + int (length (opts ! k)) + 1"
  by (simp add: startColumn_def take_Suc_conv_app_nth)

lemma startColumn_nonneg: "0 \<le> startColumn opts k"
  by (auto simp: startColumn_def intro!: sum_list_nonneg)

lemma optionIndices_closed:
  "optionIndices opts ind len =
     (ind @ map (\<lambda>k. len + startColumn opts k) [1 ..< Suc (length opts)],
      len + startColumn opts (length opts))"
proof (induction opts arbitrary: ind len)
  case Nil
  then show ?case by (simp add: startColumn_0)
next
  case (Cons opt opts)
  have "map (\<lambda>k. len + startColumn (opt # opts) k) [1 ..< Suc (Suc (length opts))] =
        (len + (int (length opt) + 1))
          # map (\<lambda>k. len + (int (length opt) + 1) + startColumn opts k) [1 ..< Suc (length opts)]"
  proof -
    have "[1 ..< Suc (Suc (length opts))] = 1 # map Suc [1 ..< Suc (length opts)]"
      by (metis One_nat_def map_Suc_upt upt_conv_Cons zero_less_Suc Suc_less_eq)
    then show ?thesis
      by (simp add: startColumn_Cons_Suc startColumn_0 comp_def)
  qed
  then show ?case
    by (simp add: Cons.IH startColumn_Cons_Suc)
qed

lemma optionIndices_start:
  "optionIndices opts [0] 0 =
     (map (startColumn opts) [0 ..< Suc (length opts)], startColumn opts (length opts))"
proof -
  have "[0 ..< Suc (length opts)] = 0 # [1 ..< Suc (length opts)]"
    by (subst upt_rec) simp
  then show ?thesis
    by (simp add: optionIndices_closed startColumn_0 del: upt_Suc)
qed

lemma length_stringsJoin:
  "opts \<noteq> [] \<Longrightarrow> int (length (stringsJoin opts '' '')) + 1 = startColumn opts (length opts)"
proof (induction opts "'' ''" rule: stringsJoin.induct)
  case 1
  then show ?case by simp
next
  case (2 x)
  then show ?case by (simp add: startColumn_def)
next
  case (3 x y ys)
  then show ?case by (simp add: startColumn_def)
qed

lemma concat_replicate_single: "concat (replicate n [c]) = replicate n c"
  by (induction n) simp_all

lemma stringsRepeat_nonneg: "0 \<le> n \<Longrightarrow> stringsRepeat [c] n = Inr (replicate (nat n) c)"
  by (simp add: stringsRepeat_def concat_replicate_single)

lemma stringsRepeat_neg: "n < 0 \<Longrightarrow> stringsRepeat s n = Inl NegativeRepeatCount"
  by (simp add: stringsRepeat_def)

lemma nth_indices:
  "k \<le> length opts \<Longrightarrow> map (startColumn opts) [0 ..< Suc (length opts)] ! k = startColumn opts k"
  by (metis add_0 le_imp_less_Suc nth_map_upt diff_zero)

lemma commentLine_pastEnd:
  assumes "opts \<noteq> []" and "index oc < 0 \<or> int (length opts) \<le> index oc"
  shows "commentLine (int (length opts)) ind (startColumn opts (length opts)) oc
           = Inr (pastEndLine opts oc)"
proof -
  have "nat (startColumn opts (length opts)) = length (stringsJoin opts '' '') + 1"
    using length_stringsJoin [OF assms(1)] by linarith
  then show ?thesis
    using assms(2) startColumn_nonneg [of opts "length opts"]
    by (simp add: commentLine_def pastEndLine_def stringsRepeat_nonneg)
qed

lemma commentLine_inRange:
  assumes ind: "\<And>k. k \<le> length opts \<Longrightarrow> ind ! k = startColumn opts k"
    and lo: "0 \<le> index oc" and hi: "index oc < int (length opts)"
  shows "commentLine (int (length opts)) ind (startColumn opts (length opts)) oc =
         (if opts ! nat (index oc) = [] then Inl NegativeRepeatCount
          else Inr (underlineLine opts oc))"
proof -
  let ?i = "nat (index oc)"
  let ?w = "int (length (opts ! ?i))"
  have i: "?i < length opts" using lo hi by simp
  have a: "ind ! ?i = startColumn opts ?i" using i by (simp add: ind)
  have sp: "stringsRepeat '' '' (ind ! ?i)
              = Inr (replicate (nat (startColumn opts ?i)) CHR '' '')"
    using a startColumn_nonneg [of opts ?i] by (simp add: stringsRepeat_nonneg)
  have td: "(if index oc = int (length opts) - 1
             then stringsRepeat ''~'' ((startColumn opts (length opts) - ind ! ?i) - 2)
             else stringsRepeat ''~'' (ind ! nat (index oc + 1) - ind ! ?i - 2))
            = stringsRepeat ''~'' (?w - 1)"
  proof (cases "index oc = int (length opts) - 1")
    case True
    then have "length opts = Suc ?i" using lo hi by linarith
    then have "startColumn opts (length opts) = startColumn opts ?i + ?w + 1"
      using startColumn_Suc [OF i] by simp
    then have "(startColumn opts (length opts) - ind ! ?i) - 2 = ?w - 1"
      using a by linarith
    then show ?thesis by (simp only: if_P [OF True])
  next
    case False
    have "nat (index oc + 1) = Suc ?i" using lo by linarith
    then have "ind ! nat (index oc + 1) = startColumn opts ?i + ?w + 1"
      using i by (simp add: ind startColumn_Suc)
    then have "ind ! nat (index oc + 1) - ind ! ?i - 2 = ?w - 1"
      using a by linarith
    then show ?thesis by (simp only: if_not_P [OF False])
  qed
  have guard: "(index oc < 0 \<or> int (length opts) \<le> index oc) = False"
    using lo hi by simp
  have unfold: "commentLine (int (length opts)) ind (startColumn opts (length opts)) oc =
        (case stringsRepeat ''~'' (?w - 1) of
           Inl p \<Rightarrow> Inl p
         | Inr tildes \<Rightarrow>
             Inr ((replicate (nat (startColumn opts ?i)) CHR '' '' @ ''^'')
                   @ tildes @ '' '' @ comment oc))"
    unfolding commentLine_def guard if_False sp td by simp
  show ?thesis
  proof (cases "opts ! ?i = []")
    case True
    then have "stringsRepeat ''~'' (?w - 1) = Inl NegativeRepeatCount"
      by (simp add: stringsRepeat_neg)
    with True unfold show ?thesis by simp
  next
    case False
    then have "stringsRepeat ''~'' (?w - 1)
                 = Inr (replicate (length (opts ! ?i) - 1) CHR ''~'')"
      by (simp add: stringsRepeat_nonneg nat_diff_distrib')
    with False unfold show ?thesis by (simp add: underlineLine_def)
  qed
qed

lemma commentLines_map:
  "(\<forall>oc \<in> set ocs. commentLine n ind len oc = Inr (g oc)) \<Longrightarrow>
     commentLines n ind len ocs lines = Inr (lines @ map g ocs)"
  by (induction ocs arbitrary: lines) simp_all

lemma commentLine_annotationLine:
  assumes "opts \<noteq> []"
    and ind: "\<And>k. k \<le> length opts \<Longrightarrow> ind ! k = startColumn opts k"
    and ne: "0 \<le> index oc \<and> index oc < int (length opts) \<longrightarrow> opts ! nat (index oc) \<noteq> []"
  shows "commentLine (int (length opts)) ind (startColumn opts (length opts)) oc
           = Inr (annotationLine opts oc)"
proof (cases "index oc < 0 \<or> int (length opts) \<le> index oc")
  case True
  then show ?thesis
    using commentLine_pastEnd [OF assms(1) True] by (simp add: annotationLine_def)
next
  case False
  then have r: "0 \<le> index oc" "index oc < int (length opts)" by auto
  with ne have "opts ! nat (index oc) \<noteq> []" by simp
  then show ?thesis
    using commentLine_inRange [of opts ind oc, OF ind r] False
    by (simp add: annotationLine_def)
qed

lemma optionLines_unfold:
  assumes "opts \<noteq> []" and "ocs \<noteq> []"
  shows "optionLines srt opts ocs =
           (srt ocs,
            commentLines (int (length opts)) (map (startColumn opts) [0 ..< Suc (length opts)])
              (startColumn opts (length opts)) (srt ocs) [stringsJoin opts '' ''])"
  using assms by (simp add: optionLines_def optionIndices_start Let_def del: upt_Suc)

lemma optionLines_closed:
  assumes "opts \<noteq> []" and "ocs \<noteq> []"
    and ne: "\<forall>oc \<in> set (srt ocs).
               0 \<le> index oc \<and> index oc < int (length opts) \<longrightarrow> opts ! nat (index oc) \<noteq> []"
  shows "optionLines srt opts ocs =
           (srt ocs, Inr (stringsJoin opts '' '' # map (annotationLine opts) (srt ocs)))"
proof -
  let ?ind = "map (startColumn opts) [0 ..< Suc (length opts)]"
  have "\<forall>oc \<in> set (srt ocs).
          commentLine (int (length opts)) ?ind (startColumn opts (length opts)) oc
            = Inr (annotationLine opts oc)"
    using ne commentLine_annotationLine [OF assms(1), of ?ind] nth_indices by blast
  then have "commentLines (int (length opts)) ?ind (startColumn opts (length opts)) (srt ocs)
               [stringsJoin opts '' '']
             = Inr ([stringsJoin opts '' ''] @ map (annotationLine opts) (srt ocs))"
    by (rule commentLines_map)
  then show ?thesis
    by (simp add: optionLines_unfold [OF assms(1,2)] del: upt_Suc)
qed

section \<open>The sorting functions meet the contract of \<^verbatim>\<open>sort.Sort\<close>\<close>

lemma mset_insertLeft: "mset (insertLeft x ps) = add_mset x (mset ps)"
  by (induction ps) simp_all

lemma set_insertLeft: "set (insertLeft x ps) = insert x (set ps)"
  by (induction ps) auto

lemma sorted_insertLeft:
  "sorted_wrt (\<lambda>a b. index a \<le> index b) ps \<Longrightarrow>
     sorted_wrt (\<lambda>a b. index a \<le> index b) (insertLeft x ps)"
  by (induction ps) (auto simp: set_insertLeft Less_def)

lemma mset_foldl_insertLeft:
  "mset (foldl (\<lambda>ps x. insertLeft x ps) acc xs) = mset acc + mset xs"
  by (induction xs arbitrary: acc) (simp_all add: mset_insertLeft)

lemma sorted_foldl_insertLeft:
  "sorted_wrt (\<lambda>a b. index a \<le> index b) acc \<Longrightarrow>
     sorted_wrt (\<lambda>a b. index a \<le> index b) (foldl (\<lambda>ps x. insertLeft x ps) acc xs)"
  by (induction xs arbitrary: acc) (simp_all add: sorted_insertLeft)

lemma mset_insertionSort: "mset (insertionSort xs) = mset xs"
  by (simp add: insertionSort_def mset_foldl_insertLeft)

lemma sorted_insertionSort: "sorted_wrt (\<lambda>a b. \<not> Less b a) (insertionSort xs)"
proof -
  have "sorted_wrt (\<lambda>a b. index a \<le> index b) (foldl (\<lambda>ps x. insertLeft x ps) [] xs)"
    by (rule sorted_foldl_insertLeft) simp
  then show ?thesis
    by (simp add: insertionSort_def sorted_wrt_rev Less_def not_less)
qed

lemma sortSort_spec_insertionSort: "sortSort_spec insertionSort"
  by (simp add: sortSort_spec_def mset_insertionSort sorted_insertionSort)

lemma length_gapSwap: "length (gapSwap xs i) = length xs"
  by (simp add: gapSwap_def)

lemma mset_gapSwap: "i < length xs \<Longrightarrow> mset (gapSwap xs i) = mset xs"
  by (simp add: gapSwap_def mset_swap)

lemma mset_foldl_gapSwap:
  "\<forall>i \<in> set is. i < length xs \<Longrightarrow> mset (foldl gapSwap xs is) = mset xs"
  by (induction "is" arbitrary: xs) (simp_all add: mset_gapSwap length_gapSwap)

lemma sortSort_spec_shellInsertionSort: "sortSort_spec shellInsertionSort"
  by (simp add: sortSort_spec_def shellInsertionSort_def mset_insertionSort
      sorted_insertionSort mset_foldl_gapSwap)

lemma sortSort_spec_unique:
  assumes "sortSort_spec srt" and d: "distinct (map index xs)"
    and s: "sorted_wrt (\<lambda>a b. index b \<le> index a) ys" and m: "mset ys = mset xs"
  shows "srt xs = ys"
proof -
  let ?zs = "srt xs"
  have mz: "mset ?zs = mset xs" and sz: "sorted_wrt (\<lambda>a b. \<not> Less b a) ?zs"
    using assms(1) by (simp_all add: sortSort_spec_def)
  have sz': "sorted_wrt (\<lambda>a b. index b \<le> index a) ?zs"
    using sz by (simp add: Less_def not_less)
  have mi: "mset (map index ?zs) = mset (map index xs)" "mset (map index ys) = mset (map index xs)"
    using mz m by simp_all
  have dz: "distinct (map index ?zs)" and dy: "distinct (map index ys)"
    using d mi by (metis mset_eq_imp_distinct_iff)+
  have "sorted (rev (map index ?zs))" "sorted (rev (map index ys))"
    using sz' s by (simp_all add: sorted_wrt_rev sorted_map rev_map [symmetric] sorted_wrt_map)
  moreover have "set (rev (map index ?zs)) = set (rev (map index ys))"
    using mi by (metis mset_eq_setD set_rev)
  ultimately have "rev (map index ?zs) = rev (map index ys)"
    using dz dy by (intro sorted_distinct_set_unique) simp_all
  then have e: "map index ?zs = map index ys" by simp
  have "set ?zs = set xs" "set ys = set xs" using mz m by (metis mset_eq_setD)+
  moreover have "inj_on index (set xs)" using d by (simp add: distinct_map)
  ultimately have "inj_on index (set ?zs \<union> set ys)" by simp
  then show ?thesis using e by (simp add: inj_on_map_eq_map)
qed


lemma commentLine_reads_in_range:
  assumes "optionIndices opts [0] 0 = (indices, len)"
    and "0 \<le> index oc" and "index oc < int (length opts)"
  shows "nat (index oc) < length indices \<and> nat (index oc + 1) < length indices"
proof -
  have "length indices = Suc (length opts)"
    using assms(1) by (auto simp: optionIndices_start simp del: upt_Suc)
  then show ?thesis using assms(2,3) by linarith
qed

section \<open>Rendering claims\<close>

lemma sortSort_spec_singleton: "sortSort_spec srt \<Longrightarrow> srt [x] = [x]"
  by (rule sortSort_spec_unique) simp_all

lemma sortSort_spec_sorted:
  "sortSort_spec srt \<Longrightarrow> sorted_wrt (\<lambda>a b. index b \<le> index a) (srt xs)"
  by (simp add: sortSort_spec_def Less_def not_less)

lemma sortSort_spec_mset: "sortSort_spec srt \<Longrightarrow> mset (srt xs) = mset xs"
  by (simp add: sortSort_spec_def)

lemma sortSort_spec_set: "sortSort_spec srt \<Longrightarrow> set (srt xs) = set xs"
  by (metis sortSort_spec_mset mset_eq_setD)

lemma example_sorted:
  assumes "sortSort_spec srt"
  shows "srt [\<lparr>comment = ''for this option'', index = 1\<rparr>,
              \<lparr>comment = ''cannot find this file'', index = 2\<rparr>,
              \<lparr>comment = ''cannot do this operation'', index = 3\<rparr>]
         = [\<lparr>comment = ''cannot do this operation'', index = 3\<rparr>,
            \<lparr>comment = ''cannot find this file'', index = 2\<rparr>,
            \<lparr>comment = ''for this option'', index = 1\<rparr>]"
  by (rule sortSort_spec_unique [OF assms]) simp_all

lemma example_lines:
  "annotationLine [''zero'', ''--one'', ''two'', ''three'']
     \<lparr>comment = ''cannot do this operation'', index = 3\<rparr>
   = ''               ^~~~~ cannot do this operation''"
  "annotationLine [''zero'', ''--one'', ''two'', ''three'']
     \<lparr>comment = ''cannot find this file'', index = 2\<rparr>
   = ''           ^~~ cannot find this file''"
  "annotationLine [''zero'', ''--one'', ''two'', ''three'']
     \<lparr>comment = ''for this option'', index = 1\<rparr>
   = ''     ^~~~~ for this option''"
  by (simp_all add: annotationLine_def underlineLine_def startColumn_def eval_nat_numeral)

text \<open>
  Claim C4, as amended. For a non-empty option list and a non-empty annotation list, with
  no annotation pointing at an empty option, \<^verbatim>\<open>optionLines\<close> returns the options joined by
  single spaces and then exactly one line for each annotation, in the order \<^verbatim>\<open>sort.Sort\<close>
  leaves them in: a rearrangement of the annotations in which the index never increases.
  Nothing more is fixed about annotations with equal indices. The slice passed in holds
  the annotations in that order afterwards. For the options zero, --one, two, three and the
  annotations 1, 2, 3 of the specification the lines are those of the README, for every
  sorting function that meets the contract.
\<close>

theorem optionLines_descending:
  assumes "sortSort_spec srt" and "opts \<noteq> []" and "ocs \<noteq> []"
    and "\<forall>oc \<in> set ocs.
           0 \<le> index oc \<and> index oc < int (length opts) \<longrightarrow> opts ! nat (index oc) \<noteq> []"
  shows "optionLines srt opts ocs =
           (srt ocs, Inr (stringsJoin opts '' '' # map (annotationLine opts) (srt ocs)))
         \<and> mset (srt ocs) = mset ocs
         \<and> sorted_wrt (\<lambda>a b. index b \<le> index a) (srt ocs)
         \<and> snd (optionLines srt [''zero'', ''--one'', ''two'', ''three'']
                  [\<lparr>comment = ''for this option'', index = 1\<rparr>,
                   \<lparr>comment = ''cannot find this file'', index = 2\<rparr>,
                   \<lparr>comment = ''cannot do this operation'', index = 3\<rparr>])
             = Inr [''zero --one two three'',
                    ''               ^~~~~ cannot do this operation'',
                    ''           ^~~ cannot find this file'',
                    ''     ^~~~~ for this option'']"
proof -
  have "\<forall>oc \<in> set (srt ocs).
          0 \<le> index oc \<and> index oc < int (length opts) \<longrightarrow> opts ! nat (index oc) \<noteq> []"
    using assms(1,4) by (simp add: sortSort_spec_set)
  then have a: "optionLines srt opts ocs =
           (srt ocs, Inr (stringsJoin opts '' '' # map (annotationLine opts) (srt ocs)))"
    by (rule optionLines_closed [OF assms(2,3)])
  have b: "snd (optionLines srt [''zero'', ''--one'', ''two'', ''three'']
                  [\<lparr>comment = ''for this option'', index = 1\<rparr>,
                   \<lparr>comment = ''cannot find this file'', index = 2\<rparr>,
                   \<lparr>comment = ''cannot do this operation'', index = 3\<rparr>])
             = Inr [''zero --one two three'',
                    ''               ^~~~~ cannot do this operation'',
                    ''           ^~~ cannot find this file'',
                    ''     ^~~~~ for this option'']"
    by (subst optionLines_closed)
       (simp_all add: example_sorted [OF assms(1)] example_lines eval_nat_numeral)
  show ?thesis
    using a b sortSort_spec_mset [OF assms(1)] sortSort_spec_sorted [OF assms(1)] by simp
qed

theorem optionLines_descending_witness:
  "optionLines insertionSort [''a'', ''b'']
     [\<lparr>comment = ''x'', index = 0\<rparr>, \<lparr>comment = ''y'', index = 0\<rparr>,
      \<lparr>comment = ''z'', index = 1\<rparr>]
   = ([\<lparr>comment = ''z'', index = 1\<rparr>, \<lparr>comment = ''x'', index = 0\<rparr>,
       \<lparr>comment = ''y'', index = 0\<rparr>],
      Inr [''a b'', ''  ^ z'', ''^ x'', ''^ y''])"
proof -
  have s: "insertionSort [\<lparr>comment = ''x'', index = 0\<rparr>, \<lparr>comment = ''y'', index = 0\<rparr>,
                          \<lparr>comment = ''z'', index = 1\<rparr>]
           = [\<lparr>comment = ''z'', index = 1\<rparr>, \<lparr>comment = ''x'', index = 0\<rparr>,
              \<lparr>comment = ''y'', index = 0\<rparr>]"
    by (simp add: insertionSort_def Less_def)
  show ?thesis
    using optionLines_descending [OF sortSort_spec_insertionSort, of "[''a'', ''b'']"
        "[\<lparr>comment = ''x'', index = 0\<rparr>, \<lparr>comment = ''y'', index = 0\<rparr>,
          \<lparr>comment = ''z'', index = 1\<rparr>]"]
    by (simp add: s annotationLine_def underlineLine_def startColumn_def eval_nat_numeral)
qed

text \<open>
  The claim as stated asks for a stable sort. \<^verbatim>\<open>sort.Sort\<close> promises none, and the
  algorithm of Go 1.18 puts the seventh annotation, added last, before five others with
  the same index that were added before it.
\<close>

theorem stable_order_counterexample:
  "sortSort_spec shellInsertionSort
   \<and> snd (optionLines shellInsertionSort [''a'', ''b'']
       [\<lparr>comment = ''p0'', index = 0\<rparr>, \<lparr>comment = ''p1'', index = 1\<rparr>,
        \<lparr>comment = ''p2'', index = 1\<rparr>, \<lparr>comment = ''p3'', index = 1\<rparr>,
        \<lparr>comment = ''p4'', index = 1\<rparr>, \<lparr>comment = ''p5'', index = 1\<rparr>,
        \<lparr>comment = ''p6'', index = 1\<rparr>])
     = Inr [''a b'', ''  ^ p6'', ''  ^ p1'', ''  ^ p2'', ''  ^ p3'', ''  ^ p4'', ''  ^ p5'',
            ''^ p0'']"
proof -
  have g: "[6 ..< 7] = [6::nat]" by (simp add: upt_rec)
  have s: "shellInsertionSort
       [\<lparr>comment = ''p0'', index = 0\<rparr>, \<lparr>comment = ''p1'', index = 1\<rparr>,
        \<lparr>comment = ''p2'', index = 1\<rparr>, \<lparr>comment = ''p3'', index = 1\<rparr>,
        \<lparr>comment = ''p4'', index = 1\<rparr>, \<lparr>comment = ''p5'', index = 1\<rparr>,
        \<lparr>comment = ''p6'', index = 1\<rparr>]
     = [\<lparr>comment = ''p6'', index = 1\<rparr>, \<lparr>comment = ''p1'', index = 1\<rparr>,
        \<lparr>comment = ''p2'', index = 1\<rparr>, \<lparr>comment = ''p3'', index = 1\<rparr>,
        \<lparr>comment = ''p4'', index = 1\<rparr>, \<lparr>comment = ''p5'', index = 1\<rparr>,
        \<lparr>comment = ''p0'', index = 0\<rparr>]"
    by (simp add: shellInsertionSort_def g gapSwap_def insertionSort_def Less_def
        eval_nat_numeral)
  have "snd (optionLines shellInsertionSort [''a'', ''b'']
       [\<lparr>comment = ''p0'', index = 0\<rparr>, \<lparr>comment = ''p1'', index = 1\<rparr>,
        \<lparr>comment = ''p2'', index = 1\<rparr>, \<lparr>comment = ''p3'', index = 1\<rparr>,
        \<lparr>comment = ''p4'', index = 1\<rparr>, \<lparr>comment = ''p5'', index = 1\<rparr>,
        \<lparr>comment = ''p6'', index = 1\<rparr>])
     = Inr [''a b'', ''  ^ p6'', ''  ^ p1'', ''  ^ p2'', ''  ^ p3'', ''  ^ p4'', ''  ^ p5'',
            ''^ p0'']"
    by (subst optionLines_closed)
       (simp_all add: s annotationLine_def underlineLine_def startColumn_def eval_nat_numeral)
  then show ?thesis using sortSort_spec_shellInsertionSort by simp
qed

text \<open>
  Claim C6, as amended. For a non-empty option list, an annotation whose index is negative
  or not below the number of options gives the line made of as many spaces as the joined
  line is long plus one (the column where a further option would start), then a caret, a
  space and the comment.
\<close>

theorem out_of_range_line:
  assumes "opts \<noteq> []" and "index oc < 0 \<or> int (length opts) \<le> index oc"
    and "optionIndices opts [0] 0 = (indices, len)"
  shows "commentLine (int (length opts)) indices len oc
           = Inr (replicate (length (stringsJoin opts '' '') + 1) CHR '' '' @ ''^ '' @ comment oc)
         \<and> (sortSort_spec srt \<longrightarrow>
              snd (optionLines srt opts [oc])
                = Inr [stringsJoin opts '' '',
                       replicate (length (stringsJoin opts '' '') + 1) CHR '' '' @ ''^ ''
                         @ comment oc])"
proof -
  have len: "len = startColumn opts (length opts)"
    using assms(3) by (simp add: optionIndices_start del: upt_Suc)
  have a: "commentLine (int (length opts)) indices len oc = Inr (pastEndLine opts oc)"
    unfolding len by (rule commentLine_pastEnd [OF assms(1,2)])
  have b: "snd (optionLines srt opts [oc]) = Inr [stringsJoin opts '' '', pastEndLine opts oc]"
    if "sortSort_spec srt"
    using assms(2)
    by (subst optionLines_closed)
       (auto simp: assms(1) sortSort_spec_singleton [OF that] annotationLine_def)
  show ?thesis using a b by (simp add: pastEndLine_def)
qed

theorem out_of_range_line_witness:
  "commentLine 2 [0, 5, 9] 9 \<lparr>comment = ''no such option'', index = 2\<rparr>
     = Inr ''         ^ no such option''
   \<and> snd (optionLines insertionSort [''zero'', ''one''] [\<lparr>comment = ''no such option'', index = 2\<rparr>])
     = Inr [''zero one'', ''         ^ no such option'']"
  using out_of_range_line [of "[''zero'', ''one'']" "\<lparr>comment = ''no such option'', index = 2\<rparr>"
      "[0, 5, 9]" 9 insertionSort] sortSort_spec_insertionSort
  by (simp add: eval_nat_numeral)

text \<open>
  The claim as stated puts the caret one column further left: for the single option ab the
  joined line has length 2, and the line drawn for index 5 or -1 starts with 3 spaces.
\<close>

theorem out_of_range_line_counterexample:
  "snd (optionLines insertionSort [''ab''] [\<lparr>comment = ''c'', index = 5\<rparr>])
     = Inr [''ab'', ''   ^ c'']
   \<and> snd (optionLines insertionSort [''ab''] [\<lparr>comment = ''c'', index = - 1\<rparr>])
     = Inr [''ab'', ''   ^ c'']
   \<and> replicate (length (stringsJoin [''ab''] '' '')) CHR '' '' @ ''^ '' @ ''c'' = ''  ^ c''"
  by (simp add: optionLines_def insertionSort_def commentLine_def stringsRepeat_def
      eval_nat_numeral)

text \<open>
  Claim C7. The claim: rendering never panics, and an option so short that the computed
  tilde count is zero or negative gets a caret alone. The code holds this for a count of
  zero (an option of one character) but not below: an annotation in range that points at an
  empty option makes the count -1, and \<^verbatim>\<open>strings.Repeat\<close> panics
  (\<open>commentLine_inRange\<close> gives the general case). With an empty option followed by x and an
  annotation for index 0, \<^verbatim>\<open>optionLines\<close> panics.
\<close>

theorem empty_option_panics:
  "optionIndices [[], ''x''] [0] 0 = ([0, 1, 3], 3)
   \<and> commentLine 2 [0, 1, 3] 3 \<lparr>comment = ''c'', index = 0\<rparr> = Inl NegativeRepeatCount
   \<and> snd (optionLines insertionSort [[], ''x''] [\<lparr>comment = ''c'', index = 0\<rparr>])
       = Inl NegativeRepeatCount
   \<and> snd (optionLines insertionSort [''x'', ''y''] [\<lparr>comment = ''c'', index = 0\<rparr>])
       = Inr [''x y'', ''^ c'']"
  by (simp add: optionLines_def insertionSort_def commentLine_def stringsRepeat_def)

lemma ErrorLines_cases:
  "snd (ErrorLines srt fe e) =
     (case (if err e = NilInterface then Inr None
            else (case snd (err_Error srt fe (err e)) of
                    Inl p \<Rightarrow> Inl p | Inr t \<Rightarrow> Inr (Some t))) of
        Inl p \<Rightarrow> Inl p
      | Inr w \<Rightarrow>
          (case snd (optionLines srt (options e) (optionComments e)) of
             Inl p \<Rightarrow> Inl p
           | Inr ol \<Rightarrow>
               Inr (beforeMessage e @ [messageLine (msg e) w] @ betweenMessageAndOptions e
                      @ ol @ afterOptions e)))"
  by (cases e) (simp add: messageLine_def split: prod.splits sum.splits)

lemma Error_Error_cases:
  "snd (Error_Error srt fe e) =
     (case snd (ErrorLines srt fe e) of
        Inl p \<Rightarrow> Inl p
      | Inr lines \<Rightarrow> Inr (stringsJoin lines [CHR 0x0A]))"
  by (simp split: prod.splits sum.splits)

text \<open>
  Claim C5, as amended. Take a value whose wrapped error, when one is set, returns a text
  from \<^verbatim>\<open>Error()\<close>, and whose options and annotations the option renderer returns lines
  for. Its lines are the lines before the message in order, then one message line, then
  the lines between message and options, then what the option renderer returns, then the
  lines after the options. The message line is \<open>messageLine\<close>, the four cases of the
  specification, \<open>w\<close> being the text of the wrapped error when one is set. \<^verbatim>\<open>Error()\<close> is
  these lines joined with newlines. The value of the specification's example gives L0, M,
  L1, L2, L3, and the zero value gives the placeholder. When the wrapped error's
  \<^verbatim>\<open>Error()\<close> or the renderer panics, so does \<^verbatim>\<open>ErrorLines\<close> (\<open>ErrorLines_cases\<close>).
\<close>

theorem ErrorLines_assembly:
  assumes "err e = NilInterface \<and> w = None
           \<or> err e \<noteq> NilInterface \<and> snd (err_Error srt fe (err e)) = Inr t \<and> w = Some t"
    and "snd (optionLines srt (options e) (optionComments e)) = Inr ol"
  shows "snd (ErrorLines srt fe e)
           = Inr (beforeMessage e @ [messageLine (msg e) w] @ betweenMessageAndOptions e
                    @ ol @ afterOptions e)
   \<and> snd (Error_Error srt fe e)
       = Inr (stringsJoin (beforeMessage e @ [messageLine (msg e) w]
                @ betweenMessageAndOptions e @ ol @ afterOptions e) [CHR 0x0A])
   \<and> WithLineAfterOptions (WithLineAfterOptions (WithLineBetweenMessageAndOption
         (WithLineBeforeMessage (New ''M'') ''L0'') ''L1'') ''L2'') ''L3''
       = Some (Error [] [] [''L0''] [''L1''] [''L2'', ''L3''] NilInterface ''M'' 0 False False False)
   \<and> snd (ErrorLines srt fe
         (Error [] [] [''L0''] [''L1''] [''L2'', ''L3''] NilInterface ''M'' 0 False False False))
       = Inr [''L0'', ''M'', ''L1'', ''L2'', ''L3'']
   \<and> snd (Error_Error srt fe zeroError) = Inr ''error without message or wrapped error''"
proof -
  have a: "snd (ErrorLines srt fe e)
           = Inr (beforeMessage e @ [messageLine (msg e) w] @ betweenMessageAndOptions e
                    @ ol @ afterOptions e)"
    using assms by (subst ErrorLines_cases) auto
  have b: "snd (Error_Error srt fe e)
       = Inr (stringsJoin (beforeMessage e @ [messageLine (msg e) w]
                @ betweenMessageAndOptions e @ ol @ afterOptions e) [CHR 0x0A])"
    by (subst Error_Error_cases) (simp only: a sum.case)
  have c: "snd (ErrorLines srt fe
         (Error [] [] [''L0''] [''L1''] [''L2'', ''L3''] NilInterface ''M'' 0 False False False))
       = Inr [''L0'', ''M'', ''L1'', ''L2'', ''L3'']"
    by (simp add: optionLines_def)
  have d: "snd (Error_Error srt fe zeroError) = Inr ''error without message or wrapped error''"
    by (simp add: zeroError_def optionLines_def)
  have n: "WithLineAfterOptions (WithLineAfterOptions (WithLineBetweenMessageAndOption
         (WithLineBeforeMessage (New ''M'') ''L0'') ''L1'') ''L2'') ''L3''
       = Some (Error [] [] [''L0''] [''L1''] [''L2'', ''L3''] NilInterface ''M'' 0 False False False)"
    by (simp add: New_def)
  show ?thesis using a b c d n by (simp only: simp_thms)
qed

theorem ErrorLines_assembly_witness:
  "snd (ErrorLines insertionSort (\<lambda>v. v)
     (Error [\<lparr>comment = ''x'', index = 0\<rparr>] [''a''] [''L0''] [''L1''] [''L2'']
        (Foreign ''inner'' None None None) ''M'' 0 False False False))
   = Inr [''L0'', ''M: inner'', ''L1'', ''a'', ''^ x'', ''L2'']
   \<and> snd (Error_Error insertionSort (\<lambda>v. v)
     (Error [\<lparr>comment = ''x'', index = 0\<rparr>] [''a''] [''L0''] [''L1''] [''L2'']
        (Foreign ''inner'' None None None) ''M'' 0 False False False))
   = Inr (stringsJoin [''L0'', ''M: inner'', ''L1'', ''a'', ''^ x'', ''L2''] [CHR 0x0A])"
proof -
  have o: "snd (optionLines insertionSort [''a''] [\<lparr>comment = ''x'', index = 0\<rparr>])
             = Inr [''a'', ''^ x'']"
    by (simp add: optionLines_def insertionSort_def commentLine_def stringsRepeat_def)
  show ?thesis
    using ErrorLines_assembly [of
        "Error [\<lparr>comment = ''x'', index = 0\<rparr>] [''a''] [''L0''] [''L1''] [''L2'']
           (Foreign ''inner'' None None None) ''M'' 0 False False False"
        "Some ''inner''" insertionSort "\<lambda>v. v" "''inner''" "[''a'', ''^ x'']"]
    by (simp add: o messageLine_def)
qed

text \<open>
  The claim as stated speaks of every value, and two values that the constructors and
  setters build have no lines at all. \<^verbatim>\<open>MaybeWrap(MaybeWrap(nil))\<close> wraps a nil \<^verbatim>\<open>*Error\<close>,
  which as an \<^verbatim>\<open>error\<close> is not nil: \<^verbatim>\<open>ErrorLines\<close> calls its \<^verbatim>\<open>Error()\<close>, a method with a
  value receiver, and panics. A value with an annotation on an empty option panics in the
  option renderer.
\<close>

theorem ErrorLines_assembly_counterexample:
  "MaybeWrap (toError (MaybeWrap NilInterface))
     = Some (Error [] [] [] [] [] NilErrorPtr [] 0 False False False)
   \<and> snd (ErrorLines insertionSort (\<lambda>v. v)
            (Error [] [] [] [] [] NilErrorPtr [] 0 False False False))
       = Inl NilDereference
   \<and> WithOptionComment (WithOptions (New ''m'') [[], ''x'']) 0 ''c''
       = Some (Error [\<lparr>comment = ''c'', index = 0\<rparr>] [[], ''x''] [] [] [] NilInterface ''m''
                 0 False False False)
   \<and> snd (ErrorLines insertionSort (\<lambda>v. v)
            (Error [\<lparr>comment = ''c'', index = 0\<rparr>] [[], ''x''] [] [] [] NilInterface ''m''
               0 False False False))
       = Inl NegativeRepeatCount"
  by (simp add: MaybeWrap_def New_def optionLines_def insertionSort_def commentLine_def
      stringsRepeat_def)

text \<open>
  Claim C10. The claim: \<^verbatim>\<open>Error()\<close> and \<^verbatim>\<open>ErrorLines()\<close> leave every field as it was,
  the stored order of the annotations included. The code does not: \<^verbatim>\<open>ErrorLines\<close> passes
  \<^verbatim>\<open>e.optionComments...\<close> to \<^verbatim>\<open>optionLines\<close>, which sorts that slice in place, and the
  receiver's copy of the struct shares its backing array with the caller's value. After
  \<^verbatim>\<open>New("m").WithOptions([]string{"a", "b"}).WithOptionComment(0, "x").WithOptionComment(1, "y")\<close>
  one call of \<^verbatim>\<open>ErrorLines\<close> leaves the annotations stored in the order 1, 0, whatever
  sorting function meets the contract of \<^verbatim>\<open>sort.Sort\<close>.
\<close>

theorem ErrorLines_reorders_optionComments:
  assumes "sortSort_spec srt"
  shows "WithOptionComment (WithOptionComment (WithOptions (New ''m'') [''a'', ''b'']) 0 ''x'') 1 ''y''
           = Some (Error [\<lparr>comment = ''x'', index = 0\<rparr>, \<lparr>comment = ''y'', index = 1\<rparr>]
                     [''a'', ''b''] [] [] [] NilInterface ''m'' 0 False False False)
         \<and> ErrorLines srt fe
             (Error [\<lparr>comment = ''x'', index = 0\<rparr>, \<lparr>comment = ''y'', index = 1\<rparr>]
                [''a'', ''b''] [] [] [] NilInterface ''m'' 0 False False False)
           = (Error [\<lparr>comment = ''y'', index = 1\<rparr>, \<lparr>comment = ''x'', index = 0\<rparr>]
                [''a'', ''b''] [] [] [] NilInterface ''m'' 0 False False False,
              Inr [''m'', ''a b'', ''  ^ y'', ''^ x''])"
proof -
  have s: "srt [\<lparr>comment = ''x'', index = 0\<rparr>, \<lparr>comment = ''y'', index = 1\<rparr>]
             = [\<lparr>comment = ''y'', index = 1\<rparr>, \<lparr>comment = ''x'', index = 0\<rparr>]"
    by (rule sortSort_spec_unique [OF assms]) simp_all
  have o: "optionLines srt [''a'', ''b'']
             [\<lparr>comment = ''x'', index = 0\<rparr>, \<lparr>comment = ''y'', index = 1\<rparr>]
           = ([\<lparr>comment = ''y'', index = 1\<rparr>, \<lparr>comment = ''x'', index = 0\<rparr>],
              Inr [''a b'', ''  ^ y'', ''^ x''])"
    by (subst optionLines_closed)
       (simp_all add: s annotationLine_def underlineLine_def startColumn_def eval_nat_numeral)
  show ?thesis by (simp add: New_def o)
qed

theorem ErrorLines_reorders_optionComments_witness:
  "optionComments (fst (ErrorLines insertionSort (\<lambda>v. v)
       (Error [\<lparr>comment = ''x'', index = 0\<rparr>, \<lparr>comment = ''y'', index = 1\<rparr>]
          [''a'', ''b''] [] [] [] NilInterface ''m'' 0 False False False)))
     = [\<lparr>comment = ''y'', index = 1\<rparr>, \<lparr>comment = ''x'', index = 0\<rparr>]
   \<and> snd (ErrorLines insertionSort (\<lambda>v. v)
       (Error [\<lparr>comment = ''x'', index = 0\<rparr>, \<lparr>comment = ''y'', index = 1\<rparr>]
          [''a'', ''b''] [] [] [] NilInterface ''m'' 0 False False False))
     = Inr [''m'', ''a b'', ''  ^ y'', ''^ x'']"
  using ErrorLines_reorders_optionComments [OF sortSort_spec_insertionSort, of "\<lambda>v. v"]
  by simp

end
